theory Spec2Isabelle
  imports Main "HOL-Library.Sublist"
begin

section \<open>Strings\<close>

text \<open>
  Python strings are modelled as \<^typ>\<open>string\<close>; a character stands for a code point
  below 256.  \<open>str.strip()\<close> removes leading and trailing white space, which in that
  range is 9 to 13, 28 to 32, 133 and 160.
\<close>

definition is_space :: "char \<Rightarrow> bool" where
  "is_space c =
     (let n = (of_char c :: nat)
      in (9 \<le> n \<and> n \<le> 13) \<or> (28 \<le> n \<and> n \<le> 32) \<or> n = 133 \<or> n = 160)"

definition strip :: "string \<Rightarrow> string" where
  "strip s = rev (dropWhile is_space (rev (dropWhile is_space s)))"

text \<open>\<open>s.split(sep)\<close> for a one-character separator: never the empty list.\<close>

fun split_on :: "char \<Rightarrow> string \<Rightarrow> string list" where
  "split_on sep [] = [[]]"
| "split_on sep (c # cs) =
     (if c = sep then [] # split_on sep cs
      else (case split_on sep cs of
              [] \<Rightarrow> [[c]]
            | l # ls \<Rightarrow> (c # l) # ls))"

text \<open>\<open>sep.join(xs)\<close>.\<close>

fun join :: "string \<Rightarrow> string list \<Rightarrow> string" where
  "join sep [] = []"
| "join sep [x] = x"
| "join sep (x # y # ys) = x @ sep @ join sep (y # ys)"

definition newline :: char where
  "newline = CHR 0x0A"

definition fence :: string where
  "fence = [CHR 0x60, CHR 0x60, CHR 0x60]"

section \<open>Paths and the file system\<close>

text \<open>
  An absolute path is the list of its components below \<open>/\<close>.  \<open>pathlib\<close> parses a
  string into components by splitting at \<open>/\<close> and dropping empty and \<open>.\<close> components;
  \<open>..\<close> stays until \<open>resolve()\<close>, which removes it together with the component before
  it (at the root it is dropped).  Symbolic links are not modelled, so \<open>resolve()\<close> is
  this lexical normal form.
\<close>

type_synonym path = "string list"

definition is_absolute :: "string \<Rightarrow> bool" where
  "is_absolute s = (case s of [] \<Rightarrow> False | c # _ \<Rightarrow> c = CHR ''/'')"

definition parse_parts :: "string \<Rightarrow> path" where
  "parse_parts s = filter (\<lambda>seg. seg \<noteq> [] \<and> seg \<noteq> ''.'') (split_on (CHR ''/'') s)"

text \<open>\<open>base / s\<close> for an absolute \<open>base\<close>: an absolute right operand replaces it.\<close>

definition joinpath :: "path \<Rightarrow> string \<Rightarrow> path" where
  "joinpath base s = (if is_absolute s then parse_parts s else base @ parse_parts s)"

definition resolve :: "path \<Rightarrow> path" where
  "resolve p = foldl (\<lambda>acc seg. if seg = ''..'' then butlast acc else acc @ [seg]) [] p"

text \<open>\<open>p.parent\<close> and \<open>p.parents\<close> (nearest first; the root has none).\<close>

definition parent :: "path \<Rightarrow> path" where
  "parent p = butlast p"

definition parents :: "path \<Rightarrow> path list" where
  "parents p = map (\<lambda>n. take n p) (rev [0..<length p])"

definition path_str :: "path \<Rightarrow> string" where
  "path_str p = (if p = [] then ''/'' else concat (map (\<lambda>seg. CHR ''/'' # seg) p))"

text \<open>
  The file system is a finite table from resolved absolute paths to nodes, in the
  order of creation; the root directory always exists.
\<close>

datatype node = FileNode string | DirNode

type_synonym filesystem = "(path \<times> node) list"

definition lookup_node :: "filesystem \<Rightarrow> path \<Rightarrow> node option" where
  "lookup_node fs p = (if p = [] then Some DirNode else map_of fs p)"

definition path_exists :: "filesystem \<Rightarrow> path \<Rightarrow> bool" where
  "path_exists fs p = (lookup_node fs p \<noteq> None)"

definition is_dir :: "filesystem \<Rightarrow> path \<Rightarrow> bool" where
  "is_dir fs p = (lookup_node fs p = Some DirNode)"

definition is_file :: "filesystem \<Rightarrow> path \<Rightarrow> bool" where
  "is_file fs p = (case lookup_node fs p of Some (FileNode _) \<Rightarrow> True | _ \<Rightarrow> False)"

fun put_node :: "path \<Rightarrow> node \<Rightarrow> filesystem \<Rightarrow> filesystem" where
  "put_node p n [] = [(p, n)]"
| "put_node p n ((q, m) # fs) = (if q = p then (p, n) # fs else (q, m) # put_node p n fs)"

datatype error =
    ValueError string
  | KeyError string
  | IndexError
  | ValidationError
  | AttributeError string
  | FileExistsError
  | NotADirectoryError
  | IsADirectoryError
  | OutputParserException
  | LLMError

text \<open>
  \<open>d.mkdir(parents=True, exist_ok=True)\<close>: an ancestor that is a regular file makes
  the system call fail with ENOTDIR, a regular file at \<open>d\<close> itself with EEXIST;
  otherwise every missing directory down to \<open>d\<close> is created.
\<close>

definition mkdir_parents :: "filesystem \<Rightarrow> path \<Rightarrow> error + filesystem" where
  "mkdir_parents fs d =
     (if list_ex (is_file fs) (parents d) then Inl NotADirectoryError
      else if is_file fs d then Inl FileExistsError
      else Inr (fold (\<lambda>a acc. if path_exists acc a then acc else put_node a DirNode acc)
                  (prefixes d) fs))"

text \<open>\<open>open(p, "w")\<close> followed by \<open>f.write(content)\<close>, once the parent exists.\<close>

definition open_write :: "filesystem \<Rightarrow> path \<Rightarrow> string \<Rightarrow> error + filesystem" where
  "open_write fs p content =
     (if is_dir fs p then Inl IsADirectoryError
      else if \<not> is_dir fs (parent p) then Inl NotADirectoryError
      else Inr (put_node p (FileNode content) fs))"

section \<open>The workspace sandbox (tools.py)\<close>

text \<open>
  The module globals \<open>_event_emitter\<close> and \<open>_session_id\<close>, the working directory,
  the file system and the event sink form the state every tool reads and returns.
  The emitter is modelled as the sink itself: a call appends the session identifier
  and the event record to \<open>events\<close>.  The log \<open>llm_calls\<close> records the model
  invocations of the coding stage.
\<close>

record event =
  ev_type :: string
  ev_path :: string
  ev_action :: string
  ev_size :: nat

datatype llm_call = ReactInvoke string | NoToolsInvoke string string

record world =
  cwd :: path
  session_id :: "string option"
  event_emitter :: bool
  disk :: filesystem
  events :: "(string \<times> event) list"
  llm_calls :: "llm_call list"

definition emit_event :: "string \<Rightarrow> string \<Rightarrow> string \<Rightarrow> nat \<Rightarrow> world \<Rightarrow> world" where
  "emit_event event_type path action sz w =
     (case session_id w of
        None \<Rightarrow> w
      | Some sid \<Rightarrow>
          if event_emitter w \<and> sid \<noteq> []
          then w\<lparr>events := events w @
                  [(sid, \<lparr>ev_type = event_type, ev_path = path, ev_action = action,
                          ev_size = sz\<rparr>)]\<rparr>
          else w)"

definition get_project_root :: "path \<Rightarrow> string \<Rightarrow> path" where
  "get_project_root wd sid = joinpath (wd @ [''generated_project'']) sid"

definition path_escape :: error where
  "path_escape = ValueError ''Attempt to write outside project root''"

definition session_unset :: error where
  "session_unset = ValueError ''Session ID not set. Call set_event_emitter first.''"

definition safe_path_for_project :: "path \<Rightarrow> string \<Rightarrow> string \<Rightarrow> error + path" where
  "safe_path_for_project wd path sid =
     (let project_root = get_project_root wd sid;
          p = resolve (joinpath project_root path);
          r = resolve project_root
      in if r \<notin> set (parents p) \<and> r \<noteq> parent p \<and> r \<noteq> p
         then Inl path_escape
         else Inr p)"

text \<open>\<open>if not _session_id\<close>: \<open>None\<close> and the empty string are both refused.\<close>

definition bound_session :: "world \<Rightarrow> string option" where
  "bound_session w =
     (case session_id w of
        None \<Rightarrow> None
      | Some sid \<Rightarrow> if sid = [] then None else Some sid)"

definition write_file :: "string \<Rightarrow> string \<Rightarrow> world \<Rightarrow> (error + string) \<times> world" where
  "write_file path content w =
     (case bound_session w of
        None \<Rightarrow> (Inl session_unset, w)
      | Some sid \<Rightarrow>
          (case safe_path_for_project (cwd w) path sid of
             Inl e \<Rightarrow> (Inl e, w)
           | Inr p \<Rightarrow>
               (case mkdir_parents (disk w) (parent p) of
                  Inl e \<Rightarrow> (Inl e, w)
                | Inr fs1 \<Rightarrow>
                    (case open_write fs1 p content of
                       Inl e \<Rightarrow> (Inl e, w\<lparr>disk := fs1\<rparr>)
                     | Inr fs2 \<Rightarrow>
                         (Inr (''WROTE:'' @ path_str p),
                          emit_event ''file'' path ''write'' (length content)
                            (w\<lparr>disk := fs2\<rparr>))))))"

text \<open>
  The three remaining tools assign to nothing, create nothing and emit nothing: they
  are functions of the state alone.
\<close>

definition read_file :: "string \<Rightarrow> world \<Rightarrow> error + string" where
  "read_file path w =
     (case bound_session w of
        None \<Rightarrow> Inl session_unset
      | Some sid \<Rightarrow>
          (case safe_path_for_project (cwd w) path sid of
             Inl e \<Rightarrow> Inl e
           | Inr p \<Rightarrow>
               (case lookup_node (disk w) p of
                  None \<Rightarrow> Inr []
                | Some DirNode \<Rightarrow> Inl IsADirectoryError
                | Some (FileNode content) \<Rightarrow> Inr content)))"

definition get_current_directory :: "world \<Rightarrow> error + string" where
  "get_current_directory w =
     (case bound_session w of
        None \<Rightarrow> Inl session_unset
      | Some sid \<Rightarrow> Inr (path_str (get_project_root (cwd w) sid)))"

text \<open>
  \<open>f.relative_to(base)\<close> compares components, and raises when \<open>base\<close> is not a
  prefix; \<open>str\<close> of the empty relative path is a dot.
\<close>

definition relative_to :: "path \<Rightarrow> path \<Rightarrow> error + string" where
  "relative_to f base =
     (if prefix base f
      then Inr (if drop (length base) f = [] then ''.'' else join ''/'' (drop (length base) f))
      else Inl (ValueError ''is not in the subpath of''))"

fun relative_all :: "path \<Rightarrow> path list \<Rightarrow> error + string list" where
  "relative_all base [] = Inr []"
| "relative_all base (f # fs) =
     (case relative_to f base of
        Inl e \<Rightarrow> Inl e
      | Inr s \<Rightarrow> (case relative_all base fs of Inl e \<Rightarrow> Inl e | Inr ss \<Rightarrow> Inr (s # ss)))"

text \<open>\<open>p.glob("**/*")\<close> filtered by \<open>is_file\<close>: the regular files strictly below \<open>p\<close>.\<close>

definition glob_files :: "filesystem \<Rightarrow> path \<Rightarrow> path list" where
  "glob_files fs p =
     map fst (filter (\<lambda>(q, n). strict_prefix p q \<and> n \<noteq> DirNode) fs)"

definition list_files :: "string \<Rightarrow> world \<Rightarrow> error + string" where
  "list_files directory w =
     (case bound_session w of
        None \<Rightarrow> Inl session_unset
      | Some sid \<Rightarrow>
          (case safe_path_for_project (cwd w) directory sid of
             Inl e \<Rightarrow> Inl e
           | Inr p \<Rightarrow>
               if \<not> is_dir (disk w) p
               then Inr (''ERROR: '' @ path_str p @ '' is not a directory'')
               else (case relative_all (get_project_root (cwd w) sid) (glob_files (disk w) p) of
                       Inl e \<Rightarrow> Inl e
                     | Inr fnames \<Rightarrow>
                         Inr (if fnames \<noteq> [] then join [newline] fnames
                              else ''No files found.''))))"

text \<open>
  The decorator \<open>@tool\<close> binds each of these names to a tool object.  The agent loop
  runs the decorated function, as defined above.  A direct call goes through the
  object's \<open>__call__(tool_input, callbacks)\<close>: with one argument it runs the function
  on that argument, so \<open>read_file(path)\<close> and \<open>list_files(directory)\<close> are the
  functions above.  The call \<open>write_file(path, content)\<close> hands \<open>content\<close> over as
  \<open>callbacks\<close>: a non-empty string is refused there (it has no \<open>parent_run_id\<close>), and
  with an empty one the input \<open>path\<close> alone fails the validation of the two-argument
  schema.  Either way the exception is raised before the function body runs, whatever
  the state.
\<close>

definition write_file_direct ::
  "string \<Rightarrow> string \<Rightarrow> world \<Rightarrow> (error + string) \<times> world" where
  "write_file_direct path content w =
     (if content \<noteq> []
      then (Inl (AttributeError ''str object has no attribute parent_run_id''), w)
      else (Inl ValidationError, w))"

section \<open>Pipeline data (states.py)\<close>

text \<open>
  The graph passes plain dictionaries: each stage returns the \<open>model_dump()\<close> of a
  pydantic object under one key.  A key is either absent (\<open>None\<close>) or holds a value
  of the shape its stage produces.  \<open>TaskPlan\<close> allows extra keys; the architect stores
  the plan under \<open>plan\<close>.
\<close>

record File =
  file_path :: string
  file_purpose :: string

record Plan =
  name :: string
  description :: string
  tech_stack :: string
  features :: "string list"
  files :: "File list"

record ImplementationTask =
  filepath :: string
  task_description :: string

record TaskPlan =
  implementation_steps :: "ImplementationTask list"
  plan :: "Plan option"

record CoderState =
  task_plan :: TaskPlan
  current_step_idx :: int
  current_file_content :: "string option"

text \<open>
  The dictionary under \<open>coder_state\<close> is read with \<open>.get\<close>, so each of its keys may be
  missing; a missing \<open>current_file_content\<close> and one holding \<open>None\<close> read alike.
\<close>

record coder_state_dict =
  get_task_plan :: "TaskPlan option"
  get_current_step_idx :: "int option"
  get_current_file_content :: "string option"

record state =
  state_user_prompt :: "string option"
  state_plan :: "Plan option"
  state_task_plan :: "TaskPlan option"
  state_coder_state :: "coder_state_dict option"

definition empty_state :: state where
  "empty_state =
     \<lparr>state_user_prompt = None, state_plan = None, state_task_plan = None,
      state_coder_state = None\<rparr>"

definition model_dump :: "CoderState \<Rightarrow> coder_state_dict" where
  "model_dump cs =
     \<lparr>get_task_plan = Some (task_plan cs),
      get_current_step_idx = Some (current_step_idx cs),
      get_current_file_content = current_file_content cs\<rparr>"

section \<open>Structured generation, planner and architect (graph.py)\<close>

text \<open>
  The model backend is a function from the system and the human message to its
  reply, or to the exception it raises.  A \<open>PydanticOutputParser\<close> is its format
  instructions and its \<open>parse\<close>.  The prompt builders of \<open>prompts.py\<close> are parameters.
\<close>

type_synonym llm = "string \<Rightarrow> string \<Rightarrow> error + string"

record 'a output_parser =
  get_format_instructions :: string
  parse :: "string \<Rightarrow> error + 'a"

definition run_structured :: "llm \<Rightarrow> 'a output_parser \<Rightarrow> string \<Rightarrow> error + 'a" where
  "run_structured llm_no_tools parser prompt =
     (let fmt = get_format_instructions parser;
          sys = ''Return ONLY JSON matching the schema. No prose.''
      in case llm_no_tools sys (prompt @ [newline, newline] @ fmt) of
           Inl e \<Rightarrow> Inl e
         | Inr text \<Rightarrow> parse parser text)"

definition error_plan :: Plan where
  "error_plan =
     \<lparr>name = ''Error'', description = ''Failed to create plan'', tech_stack = ''unknown'',
      features = [], files = []\<rparr>"

definition planner_agent ::
  "llm \<Rightarrow> Plan output_parser \<Rightarrow> (string \<Rightarrow> string) \<Rightarrow> state \<Rightarrow> error + state" where
  "planner_agent llm_no_tools plan_parser planner_prompt st =
     (case state_user_prompt st of
        None \<Rightarrow> Inl (KeyError ''user_prompt'')
      | Some up \<Rightarrow>
          (let user_prompt = strip up
           in case run_structured llm_no_tools plan_parser (planner_prompt user_prompt) of
                Inr plan_obj \<Rightarrow> Inr (empty_state\<lparr>state_plan := Some plan_obj\<rparr>)
              | Inl e \<Rightarrow> Inr (empty_state\<lparr>state_plan := Some error_plan\<rparr>)))"

definition architect_agent ::
  "llm \<Rightarrow> TaskPlan output_parser \<Rightarrow> (Plan \<Rightarrow> string) \<Rightarrow> state \<Rightarrow> state" where
  "architect_agent llm_no_tools task_plan_parser architect_prompt st =
     (case state_plan st of
        None \<Rightarrow>
          empty_state\<lparr>state_task_plan := Some \<lparr>implementation_steps = [], plan = None\<rparr>\<rparr>
      | Some pl \<Rightarrow>
          (case run_structured llm_no_tools task_plan_parser (architect_prompt pl) of
             Inr task_plan_obj \<Rightarrow>
               empty_state\<lparr>state_task_plan := Some (task_plan_obj\<lparr>plan := Some pl\<rparr>)\<rparr>
           | Inl e \<Rightarrow>
               empty_state\<lparr>state_task_plan :=
                 Some \<lparr>implementation_steps = [], plan = Some pl\<rparr>\<rparr>))"

section \<open>The coder (graph.py)\<close>

text \<open>
  One invocation of the coder meets the model twice at most: the tool-using agent,
  and the tool-free fallback.  What the model does there is not decided by the
  program, so it is a parameter of the invocation: the tool calls the agent makes
  (in order; the agent loop hands a tool's exception back to the model, so a failing
  call does not end the run), whether the agent run ends in an exception, and what
  the fallback request answers.
\<close>

datatype tool_call =
    ReadFile string
  | WriteFile string string
  | ListFiles string
  | GetCurrentDirectory

record llm_turn =
  react_calls :: "tool_call list"
  react_raises :: bool
  fallback_reply :: "error + string"

fun run_tool :: "tool_call \<Rightarrow> world \<Rightarrow> world" where
  "run_tool (ReadFile path) w = w"
| "run_tool (WriteFile path content) w = snd (write_file path content w)"
| "run_tool (ListFiles directory) w = w"
| "run_tool GetCurrentDirectory w = w"

text \<open>\<open>xs[i]\<close>: a negative index counts from the end; out of range raises.\<close>

definition py_index :: "'a list \<Rightarrow> int \<Rightarrow> error + 'a" where
  "py_index xs i =
     (if 0 \<le> i \<and> i < int (length xs) then Inr (xs ! nat i)
      else if i < 0 \<and> - int (length xs) \<le> i then Inr (xs ! nat (int (length xs) + i))
      else Inl IndexError)"

definition coder_result :: "CoderState \<Rightarrow> state" where
  "coder_result cs = empty_state\<lparr>state_coder_state := Some (model_dump cs)\<rparr>"

definition no_task_plan_result :: state where
  "no_task_plan_result =
     empty_state\<lparr>state_coder_state :=
       Some \<lparr>get_task_plan = Some \<lparr>implementation_steps = [], plan = None\<rparr>,
             get_current_step_idx = Some 999,
             get_current_file_content = None\<rparr>\<rparr>"

text \<open>
  Lines 88 to 122: where the task plan is looked for, and how the coder state is
  rebuilt.  \<open>TaskPlan(**{})\<close>, from a \<open>coder_state\<close> without a \<open>task_plan\<close>, fails
  validation.
\<close>

datatype loaded = NoTaskPlan | Raised error | Loaded CoderState

definition load_coder_state :: "state \<Rightarrow> loaded" where
  "load_coder_state st =
     (case (case state_task_plan st of
              Some tp \<Rightarrow> Some tp
            | None \<Rightarrow> (case state_coder_state st of
                         None \<Rightarrow> None
                       | Some d \<Rightarrow> get_task_plan d)) of
        None \<Rightarrow> NoTaskPlan
      | Some task_plan_data \<Rightarrow>
          (case state_coder_state st of
             None \<Rightarrow>
               Loaded \<lparr>task_plan = task_plan_data, current_step_idx = 0,
                       current_file_content = None\<rparr>
           | Some coder_state_data \<Rightarrow>
               (case get_task_plan coder_state_data of
                  None \<Rightarrow> Raised ValidationError
                | Some tp \<Rightarrow>
                    Loaded \<lparr>task_plan = tp,
                            current_step_idx =
                              (case get_current_step_idx coder_state_data of
                                 None \<Rightarrow> 0 | Some i \<Rightarrow> i),
                            current_file_content =
                              get_current_file_content coder_state_data\<rparr>)))"

text \<open>
  Lines 139 to 146: the test write, a direct call of the tool object, with every
  exception caught; the read after it is not reached.
\<close>

definition debug_write :: "world \<Rightarrow> world" where
  "debug_write w = snd (write_file_direct ''test.txt'' ''Hello World Test'' w)"

text \<open>Lines 148 to 154.\<close>

definition read_existing :: "ImplementationTask \<Rightarrow> world \<Rightarrow> string" where
  "read_existing current_task w =
     (case read_file (filepath current_task) w of
        Inl e \<Rightarrow> []
      | Inr existing_content \<Rightarrow> existing_content)"

definition make_user_prompt :: "ImplementationTask \<Rightarrow> string \<Rightarrow> string" where
  "make_user_prompt current_task existing_content =
     ''Task: '' @ task_description current_task @ [newline] @
     ''File: '' @ filepath current_task @ [newline] @
     ''Existing content:'' @ [newline] @ existing_content @ [newline] @
     ''Use write_file(path, content) to save your changes.''"

text \<open>
  Lines 165 to 197: the agent run.  The result is \<open>success\<close>.  The listing after the
  run is only printed.
\<close>

definition react_phase :: "llm_turn \<Rightarrow> string \<Rightarrow> world \<Rightarrow> bool \<times> world" where
  "react_phase turn user_prompt w =
     (let w1 = fold run_tool (react_calls turn)
                 (w\<lparr>llm_calls := llm_calls w @ [ReactInvoke user_prompt]\<rparr>)
      in (\<not> react_raises turn, w1))"

text \<open>Lines 202 to 209.\<close>

definition file_exists_after_react :: "ImplementationTask \<Rightarrow> world \<Rightarrow> bool" where
  "file_exists_after_react current_task w =
     (case read_file (filepath current_task) w of
        Inl e \<Rightarrow> False
      | Inr test_content \<Rightarrow> length (strip test_content) > 0)"

definition fallback_sys :: string where
  "fallback_sys =
     ''You are the CODER. Generate the complete file content for the implementation. '' @
     ''Provide only the code, no explanations or markdown formatting.''"

text \<open>Lines 228 to 235; \<open>split\<close> never returns the empty list, so \<open>lines[0]\<close> exists.\<close>

definition clean_content :: "string \<Rightarrow> string" where
  "clean_content raw =
     (let content = strip raw
      in if prefix fence content
         then (let lines0 = split_on newline content;
                   lines1 = (case lines0 of
                               [] \<Rightarrow> []
                             | l # ls \<Rightarrow> if prefix fence l then ls else lines0);
                   lines2 = (if lines1 \<noteq> [] \<and> strip (last lines1) = fence
                             then butlast lines1 else lines1)
               in join [newline] lines2)
         else content)"

text \<open>
  Lines 199 to 253: the fallback, once at most, every exception caught.  The write of
  line 238 is a direct call of the tool object too.
\<close>

definition fallback_needed :: "bool \<Rightarrow> ImplementationTask \<Rightarrow> world \<Rightarrow> bool" where
  "fallback_needed success current_task w =
     (\<not> success \<or> \<not> file_exists_after_react current_task w)"

definition fallback_phase ::
  "llm_turn \<Rightarrow> ImplementationTask \<Rightarrow> string \<Rightarrow> bool \<Rightarrow> world \<Rightarrow> world" where
  "fallback_phase turn current_task user_prompt success w =
     (if fallback_needed success current_task w
      then (let w1 = w\<lparr>llm_calls := llm_calls w @ [NoToolsInvoke fallback_sys user_prompt]\<rparr>
            in case fallback_reply turn of
                 Inl e \<Rightarrow> w1
               | Inr raw \<Rightarrow>
                   if raw \<noteq> []
                   then snd (write_file_direct (filepath current_task) (clean_content raw) w1)
                   else w1)
      else w)"

text \<open>Lines 139 to 253: all the work on one step.\<close>

definition primary_path :: "llm_turn \<Rightarrow> ImplementationTask \<Rightarrow> world \<Rightarrow> bool \<times> world" where
  "primary_path turn current_task w =
     (let w1 = debug_write w;
          existing_content = read_existing current_task w1
      in react_phase turn (make_user_prompt current_task existing_content) w1)"

definition attempt_step :: "llm_turn \<Rightarrow> ImplementationTask \<Rightarrow> world \<Rightarrow> world" where
  "attempt_step turn current_task w =
     (let user_prompt = make_user_prompt current_task (read_existing current_task (debug_write w))
      in case primary_path turn current_task w of
           (success, w1) \<Rightarrow> fallback_phase turn current_task user_prompt success w1)"

definition coder_agent :: "llm_turn \<Rightarrow> state \<Rightarrow> world \<Rightarrow> (error + state) \<times> world" where
  "coder_agent turn st w =
     (case load_coder_state st of
        NoTaskPlan \<Rightarrow> (Inr no_task_plan_result, w)
      | Raised e \<Rightarrow> (Inl e, w)
      | Loaded coder_state \<Rightarrow>
          (let steps = implementation_steps (task_plan coder_state)
           in if current_step_idx coder_state \<ge> int (length steps)
              then (Inr (coder_result coder_state), w)
              else (case py_index steps (current_step_idx coder_state) of
                      Inl e \<Rightarrow> (Inl e, w)
                    | Inr current_task \<Rightarrow>
                        (Inr (coder_result
                               (coder_state\<lparr>current_step_idx :=
                                              current_step_idx coder_state + 1\<rparr>)),
                         attempt_step turn current_task w))))"

datatype route = END | Coder

text \<open>
  Lines 266 to 293.  An empty dictionary is falsy and goes to \<open>END\<close>; so does a
  dictionary holding nothing but \<open>current_file_content = None\<close>, through the
  comparison \<open>0 >= 0\<close>.
\<close>

definition empty_dict :: coder_state_dict where
  "empty_dict =
     \<lparr>get_task_plan = None, get_current_step_idx = None, get_current_file_content = None\<rparr>"

definition should_continue :: "state \<Rightarrow> route" where
  "should_continue st =
     (case state_coder_state st of
        None \<Rightarrow> END
      | Some coder_state \<Rightarrow>
          if coder_state = empty_dict then END
          else (let current_idx = (case get_current_step_idx coder_state of
                                     None \<Rightarrow> 0 | Some i \<Rightarrow> i);
                    implementation_steps_list =
                      (case get_task_plan coder_state of
                         None \<Rightarrow> [] | Some tp \<Rightarrow> implementation_steps tp);
                    total_steps = int (length implementation_steps_list)
                in if current_idx \<ge> total_steps then END else Coder))"

text \<open>
  A sequence of invocations: the graph hands the dictionary one invocation returns
  to the next one; an exception ends the run.
\<close>

fun coder_run :: "llm_turn list \<Rightarrow> state \<Rightarrow> world \<Rightarrow> (error + state) \<times> world" where
  "coder_run [] st w = (Inr st, w)"
| "coder_run (turn # turns) st w =
     (case coder_agent turn st w of
        (Inl e, w1) \<Rightarrow> (Inl e, w1)
      | (Inr st1, w1) \<Rightarrow> coder_run turns st1 w1)"

section \<open>Concrete inputs\<close>

text \<open>
  A session \<open>s1\<close> of a server running in \<open>/srv\<close>: before anything was written, and
  with one file in its workspace.
\<close>

definition example_world :: world where
  "example_world =
     \<lparr>cwd = [''srv''], session_id = Some ''s1'', event_emitter = True, disk = [],
      events = [], llm_calls = []\<rparr>"

definition example_file_world :: world where
  "example_file_world =
     \<lparr>cwd = [''srv''], session_id = Some ''s1'', event_emitter = True,
      disk = [([''srv''], DirNode), ([''srv'', ''generated_project''], DirNode),
              ([''srv'', ''generated_project'', ''s1''], DirNode),
              ([''srv'', ''generated_project'', ''s1'', ''a.py''], FileNode ''x=1'')],
      events = [], llm_calls = []\<rparr>"

definition idle_turn :: llm_turn where
  "idle_turn = \<lparr>react_calls = [], react_raises = False, fallback_reply = Inr []\<rparr>"

text \<open>
  The two-step plan of the specification's example, a turn in which the model does
  nothing, one in which both attempts fail, and the coder state after both steps.
\<close>

definition example_task_plan :: TaskPlan where
  "example_task_plan =
     \<lparr>implementation_steps =
        [\<lparr>filepath = ''app.py'', task_description = ''create hello world''\<rparr>,
         \<lparr>filepath = ''README.md'', task_description = ''write project description''\<rparr>],
      plan = None\<rparr>"

definition example_state :: state where
  "example_state = empty_state\<lparr>state_task_plan := Some example_task_plan\<rparr>"

definition failing_turn :: llm_turn where
  "failing_turn = \<lparr>react_calls = [], react_raises = True, fallback_reply = Inl LLMError\<rparr>"

definition example_done :: CoderState where
  "example_done =
     \<lparr>task_plan = example_task_plan, current_step_idx = 2, current_file_content = None\<rparr>"

text \<open>
  Prompt builders, parsers and model backends for the planning stages: a backend that
  answers the planner in prose and the architect with a parseable list, and one that
  answers everything in prose.  A turn in which the agent writes a single blank to the
  target file; and the first task of the example plan.
\<close>

definition example_planner_prompt :: "string \<Rightarrow> string" where
  "example_planner_prompt user_prompt = ''Plan: '' @ user_prompt"

definition example_architect_prompt :: "Plan \<Rightarrow> string" where
  "example_architect_prompt pl = ''Tasks: '' @ name pl"

definition example_plan_parser :: "Plan output_parser" where
  "example_plan_parser =
     \<lparr>get_format_instructions = ''Plan schema'',
      parse = (\<lambda>text. if text = ''{}'' then Inr error_plan else Inl OutputParserException)\<rparr>"

definition example_task_plan_parser :: "TaskPlan output_parser" where
  "example_task_plan_parser =
     \<lparr>get_format_instructions = ''TaskPlan schema'',
      parse = (\<lambda>text. if text = ''[2 steps]'' then Inr example_task_plan
                      else Inl OutputParserException)\<rparr>"

definition chatty_llm :: llm where
  "chatty_llm sys human =
     Inr (if prefix ''Plan: '' human then ''Sure! Here is a plan.'' else ''[2 steps]'')"

definition prose_llm :: llm where
  "prose_llm sys human = Inr ''Sure! Here you go.''"

definition blank_turn :: llm_turn where
  "blank_turn =
     \<lparr>react_calls = [WriteFile ''app.py'' '' ''], react_raises = False,
      fallback_reply = Inr ''print(1)''\<rparr>"

definition example_task :: ImplementationTask where
  "example_task = \<lparr>filepath = ''app.py'', task_description = ''create hello world''\<rparr>"

section \<open>The path check\<close>

lemma parents_iff: "r \<in> set (parents p) \<longleftrightarrow> strict_prefix r p"
proof
  assume "r \<in> set (parents p)"
  then obtain n where "n < length p" "r = take n p"
    by (auto simp: parents_def)
  then show "strict_prefix r p"
    by (metis take_is_prefix strict_prefix_def length_take min.absorb2 less_imp_le nat_neq_iff)
next
  assume "strict_prefix r p"
  then obtain zs where "p = r @ zs" "zs \<noteq> []"
    by (auto simp: strict_prefix_def prefix_def)
  then have "length r < length p" "r = take (length r) p"
    by auto
  then show "r \<in> set (parents p)"
    unfolding parents_def
    by (metis (no_types, lifting) atLeast0LessThan imageI lessThan_iff set_map set_rev set_upt)
qed

lemma outside_iff:
  "(r \<notin> set (parents p) \<and> r \<noteq> parent p \<and> r \<noteq> p) \<longleftrightarrow> \<not> prefix r p"
proof -
  have "parent p = p \<or> strict_prefix (parent p) p"
    by (cases p rule: rev_cases) (auto simp: parent_def strict_prefix_def)
  then show ?thesis
    by (auto simp: parents_iff strict_prefix_def)
qed

text \<open>
  The three tests of \<open>safe_path_for_project\<close> together say that the resolved project
  root is a prefix of the resolved path: the path is the root or lies below it.
\<close>

lemma safe_path_for_project_eq:
  "safe_path_for_project wd path sid =
     (if prefix (resolve (get_project_root wd sid))
           (resolve (joinpath (get_project_root wd sid) path))
      then Inr (resolve (joinpath (get_project_root wd sid) path))
      else Inl path_escape)"
  using outside_iff [of "resolve (get_project_root wd sid)"
                        "resolve (joinpath (get_project_root wd sid) path)"]
  unfolding safe_path_for_project_def Let_def
  by (simp split: if_splits)

lemmas example_path_simps =
  bound_session_def get_project_root_def joinpath_def is_absolute_def parse_parts_def
  resolve_def lookup_node_def

section \<open>Properties of the workspace tools\<close>

text \<open>
  C5.  With the tools bound to a session, a path whose resolution is neither the
  project root nor below it makes \<open>write_file\<close>, \<open>read_file\<close> and \<open>list_files\<close> raise
  the path-escape \<open>ValueError\<close>; the write leaves the whole state as it was (no file
  or directory created, no event emitted), and the two readers never change it.
\<close>

theorem escaping_path_fails_without_io:
  assumes "bound_session w = Some sid"
    and "\<not> prefix (resolve (get_project_root (cwd w) sid))
             (resolve (joinpath (get_project_root (cwd w) sid) path))"
  shows "write_file path content w = (Inl path_escape, w) \<and>
         read_file path w = Inl path_escape \<and>
         list_files path w = Inl path_escape"
  using assms
  by (simp add: write_file_def read_file_def list_files_def safe_path_for_project_eq)

theorem escaping_path_fails_without_io_witness:
  "write_file ''../x'' ''c'' example_world = (Inl path_escape, example_world) \<and>
   read_file ''../x'' example_world = Inl path_escape \<and>
   list_files ''../x'' example_world = Inl path_escape"
  using escaping_path_fails_without_io [of example_world "''s1''" "''../x''" "''c''"]
  by (simp add: example_world_def example_path_simps)

text \<open>
  C7, as amended.  For a path that resolves inside the project root and is not a
  directory, \<open>list_files\<close> raises nothing: its ordinary result is the message
  \<open>ERROR: <resolved path> is not a directory\<close>.
\<close>

theorem list_files_not_a_directory_returns_message:
  assumes "bound_session w = Some sid"
    and "prefix (resolve (get_project_root (cwd w) sid))
           (resolve (joinpath (get_project_root (cwd w) sid) directory))"
    and "\<not> is_dir (disk w) (resolve (joinpath (get_project_root (cwd w) sid) directory))"
  shows "list_files directory w =
           Inr (''ERROR: '' @
                path_str (resolve (joinpath (get_project_root (cwd w) sid) directory)) @
                '' is not a directory'')"
  using assms
  by (simp add: list_files_def safe_path_for_project_eq)

theorem list_files_not_a_directory_returns_message_witness:
  "list_files ''a.py'' example_file_world =
     Inr ''ERROR: /srv/generated_project/s1/a.py is not a directory''"
  using list_files_not_a_directory_returns_message [of example_file_world "''s1''" "''a.py''"]
  by (simp add: example_file_world_def example_path_simps is_dir_def path_str_def)

text \<open>
  C7 as stated fails: \<open>a.py\<close> resolves inside the project root and is a regular
  file, and \<open>list_files\<close> returns a value instead of raising.
\<close>

theorem list_files_not_a_directory_counterexample:
  "safe_path_for_project (cwd example_file_world) ''a.py'' ''s1'' =
     Inr [''srv'', ''generated_project'', ''s1'', ''a.py''] \<and>
   \<not> is_dir (disk example_file_world) [''srv'', ''generated_project'', ''s1'', ''a.py''] \<and>
   \<not> isl (list_files ''a.py'' example_file_world)"
  by (simp add: example_file_world_def example_path_simps is_dir_def
        safe_path_for_project_eq list_files_def)

text \<open>
  C8.  For a path inside the project root at which nothing exists, \<open>read_file\<close>
  returns the empty string and raises nothing.
\<close>

theorem read_missing_file_is_empty:
  assumes "bound_session w = Some sid"
    and "prefix (resolve (get_project_root (cwd w) sid))
           (resolve (joinpath (get_project_root (cwd w) sid) path))"
    and "\<not> path_exists (disk w) (resolve (joinpath (get_project_root (cwd w) sid) path))"
  shows "read_file path w = Inr []"
  using assms
  by (simp add: read_file_def safe_path_for_project_eq path_exists_def)

theorem read_missing_file_is_empty_witness:
  "read_file ''src/none.py'' example_file_world = Inr []"
  using read_missing_file_is_empty [of example_file_world "''s1''" "''src/none.py''"]
  by (simp add: example_file_world_def example_path_simps path_exists_def)

section \<open>Properties of the coder\<close>

text \<open>
  C10.  A state with no \<open>task_plan\<close> key, and with no \<open>coder_state\<close> or one without a
  \<open>task_plan\<close>, makes the coder return (not raise) the coder state with
  \<open>current_step_idx = 999\<close> and no implementation steps, touching nothing; and
  \<open>should_continue\<close> sends that state to \<open>END\<close>.
\<close>

theorem no_task_plan_gives_sentinel:
  assumes "state_task_plan st = None"
    and "(case state_coder_state st of None \<Rightarrow> True | Some d \<Rightarrow> get_task_plan d = None)"
  shows "coder_agent turn st w =
           (Inr (empty_state\<lparr>state_coder_state :=
                   Some \<lparr>get_task_plan = Some \<lparr>implementation_steps = [], plan = None\<rparr>,
                         get_current_step_idx = Some 999,
                         get_current_file_content = None\<rparr>\<rparr>), w) \<and>
         should_continue
           (empty_state\<lparr>state_coder_state :=
                   Some \<lparr>get_task_plan = Some \<lparr>implementation_steps = [], plan = None\<rparr>,
                         get_current_step_idx = Some 999,
                         get_current_file_content = None\<rparr>\<rparr>) = END"
  using assms
  by (auto simp: coder_agent_def load_coder_state_def no_task_plan_result_def
        should_continue_def empty_state_def empty_dict_def split: option.splits)

theorem no_task_plan_gives_sentinel_witness:
  "coder_agent idle_turn (empty_state\<lparr>state_user_prompt := Some ''todo app''\<rparr>) example_world =
     (Inr (empty_state\<lparr>state_coder_state :=
             Some \<lparr>get_task_plan = Some \<lparr>implementation_steps = [], plan = None\<rparr>,
                   get_current_step_idx = Some 999,
                   get_current_file_content = None\<rparr>\<rparr>), example_world) \<and>
   should_continue
     (empty_state\<lparr>state_coder_state :=
             Some \<lparr>get_task_plan = Some \<lparr>implementation_steps = [], plan = None\<rparr>,
                   get_current_step_idx = Some 999,
                   get_current_file_content = None\<rparr>\<rparr>) = END"
  using no_task_plan_gives_sentinel
          [of "empty_state\<lparr>state_user_prompt := Some ''todo app''\<rparr>" idle_turn example_world]
  by (simp add: empty_state_def)

section \<open>The step cursor\<close>

text \<open>The dictionary an invocation returns is read back as the coder state it dumps.\<close>

lemma load_coder_result: "load_coder_state (coder_result cs) = Loaded cs"
  by (simp add: load_coder_state_def coder_result_def model_dump_def empty_state_def)

lemma coder_agent_done:
  assumes "load_coder_state st = Loaded cs"
    and "int (length (implementation_steps (task_plan cs))) \<le> current_step_idx cs"
  shows "coder_agent turn st w = (Inr (coder_result cs), w)"
  using assms by (simp add: coder_agent_def)

lemma coder_agent_step:
  assumes "load_coder_state st = Loaded cs"
    and "0 \<le> current_step_idx cs"
    and "current_step_idx cs < int (length (implementation_steps (task_plan cs)))"
  shows "coder_agent turn st w =
           (Inr (coder_result (cs\<lparr>current_step_idx := current_step_idx cs + 1\<rparr>)),
            attempt_step turn (implementation_steps (task_plan cs) ! nat (current_step_idx cs)) w)"
  using assms by (simp add: coder_agent_def py_index_def)

lemma coder_run_cursor:
  assumes "load_coder_state st = Loaded cs" and "0 \<le> current_step_idx cs"
  shows "\<exists>w'. coder_run turns st w =
           (Inr (if turns = [] then st
                 else coder_result
                        (cs\<lparr>current_step_idx :=
                              min (current_step_idx cs + int (length turns))
                                  (max (current_step_idx cs)
                                       (int (length (implementation_steps (task_plan cs)))))\<rparr>)),
            w')"
  using assms
proof (induction turns arbitrary: st cs w)
  case Nil
  then show ?case by simp
next
  case (Cons t ts)
  let ?n = "int (length (implementation_steps (task_plan cs)))"
  let ?i = "current_step_idx cs"
  show ?case
  proof (cases "?n \<le> ?i")
    case True
    have a: "coder_agent t st w = (Inr (coder_result cs), w)"
      using coder_agent_done [OF Cons.prems(1) True] .
    from Cons.IH [OF load_coder_result Cons.prems(2), of w]
    obtain w' where "coder_run ts (coder_result cs) w =
        (Inr (if ts = [] then coder_result cs
              else coder_result (cs\<lparr>current_step_idx := min (?i + int (length ts)) (max ?i ?n)\<rparr>)), w')"
      by blast
    with a True show ?thesis
      by (auto simp: min_def max_def)
  next
    case False
    let ?cs1 = "cs\<lparr>current_step_idx := ?i + 1\<rparr>"
    have a: "coder_agent t st w =
               (Inr (coder_result ?cs1), attempt_step t (implementation_steps (task_plan cs) ! nat ?i) w)"
      using coder_agent_step [OF Cons.prems(1,2)] False by simp
    have "0 \<le> current_step_idx ?cs1"
      using Cons.prems(2) by simp
    from Cons.IH [OF load_coder_result this]
    obtain w' where "coder_run ts (coder_result ?cs1)
          (attempt_step t (implementation_steps (task_plan cs) ! nat ?i) w) =
        (Inr (if ts = [] then coder_result ?cs1
              else coder_result (?cs1\<lparr>current_step_idx :=
                     min (current_step_idx ?cs1 + int (length ts))
                         (max (current_step_idx ?cs1)
                              (int (length (implementation_steps (task_plan ?cs1)))))\<rparr>)), w')"
      by blast
    with a False show ?thesis
      by (auto simp: min_def max_def add.assoc)
  qed
qed

text \<open>
  C1.  For a coder state with a cursor \<open>i \<ge> 0\<close> (the cursor is 0-based; it starts at 0
  and nothing else assigns it) over \<open>n\<close> steps: an invocation with \<open>i < n\<close> returns the
  cursor \<open>i + 1\<close>, whatever the agent run and the fallback did; and any sequence of \<open>k\<close>
  invocations returns, with the task plan and scratch content unchanged, the cursor
  \<open>min (i + k) (max i n)\<close>, which from one invocation to the next stays or grows by one:
  it never decreases and never skips an index.
\<close>

theorem cursor_advances_by_one:
  assumes "load_coder_state st = Loaded cs" and "0 \<le> current_step_idx cs"
  shows "(current_step_idx cs < int (length (implementation_steps (task_plan cs)))
            \<longrightarrow> fst (coder_agent turn st w) =
                  Inr (coder_result (cs\<lparr>current_step_idx := current_step_idx cs + 1\<rparr>))) \<and>
         (\<exists>st' w'. coder_run turns st w = (Inr st', w') \<and>
            load_coder_state st' =
              Loaded (cs\<lparr>current_step_idx :=
                           min (current_step_idx cs + int (length turns))
                               (max (current_step_idx cs)
                                    (int (length (implementation_steps (task_plan cs)))))\<rparr>))"
proof
  show "current_step_idx cs < int (length (implementation_steps (task_plan cs)))
            \<longrightarrow> fst (coder_agent turn st w) =
                  Inr (coder_result (cs\<lparr>current_step_idx := current_step_idx cs + 1\<rparr>))"
    using coder_agent_step [OF assms] by simp
next
  from coder_run_cursor [OF assms, of turns w]
  obtain w' where r: "coder_run turns st w =
     (Inr (if turns = [] then st
           else coder_result
                  (cs\<lparr>current_step_idx :=
                        min (current_step_idx cs + int (length turns))
                            (max (current_step_idx cs)
                                 (int (length (implementation_steps (task_plan cs)))))\<rparr>)), w')"
    by blast
  show "\<exists>st' w'. coder_run turns st w = (Inr st', w') \<and>
            load_coder_state st' =
              Loaded (cs\<lparr>current_step_idx :=
                           min (current_step_idx cs + int (length turns))
                               (max (current_step_idx cs)
                                    (int (length (implementation_steps (task_plan cs)))))\<rparr>)"
  proof (cases "turns = []")
    case True
    with r assms show ?thesis by (simp add: min_def max_def)
  next
    case False
    with r show ?thesis by (simp add: load_coder_result)
  qed
qed

theorem cursor_advances_by_one_witness:
  "fst (coder_agent failing_turn example_state example_world) =
     Inr (coder_result
            \<lparr>task_plan = example_task_plan, current_step_idx = 1,
             current_file_content = None\<rparr>) \<and>
   (\<exists>st' w'. coder_run [failing_turn, idle_turn, idle_turn] example_state example_world =
        (Inr st', w') \<and>
      load_coder_state st' =
        Loaded \<lparr>task_plan = example_task_plan, current_step_idx = 2,
                current_file_content = None\<rparr>)"
  using cursor_advances_by_one
          [of example_state
              "\<lparr>task_plan = example_task_plan, current_step_idx = 0,
                current_file_content = None\<rparr>"
              failing_turn example_world "[failing_turn, idle_turn, idle_turn]"]
  by (simp add: example_state_def example_task_plan_def load_coder_state_def empty_state_def)

text \<open>
  C3.  From a state with a task plan of \<open>n\<close> steps and no coder state, \<open>n + 1\<close>
  invocations return (none raises) the coder state with cursor \<open>n\<close>, and
  \<open>should_continue\<close> answers \<open>END\<close> there: the graph invokes the coder no further.
\<close>

theorem fresh_run_reaches_terminal:
  assumes "state_coder_state st = None" and "state_task_plan st = Some tp"
    and "length turns = length (implementation_steps tp) + 1"
  shows "\<exists>w'. coder_run turns st w =
           (Inr (coder_result
                   \<lparr>task_plan = tp,
                    current_step_idx = int (length (implementation_steps tp)),
                    current_file_content = None\<rparr>), w') \<and>
         should_continue
           (coder_result
              \<lparr>task_plan = tp,
               current_step_idx = int (length (implementation_steps tp)),
               current_file_content = None\<rparr>) = END"
proof -
  let ?cs = "\<lparr>task_plan = tp, current_step_idx = 0, current_file_content = None\<rparr>"
  have l: "load_coder_state st = Loaded ?cs"
    using assms(1,2) by (simp add: load_coder_state_def)
  have ne: "turns \<noteq> []"
    using assms(3) by auto
  from coder_run_cursor [OF l, of turns w] ne assms(3)
  have "\<exists>w'. coder_run turns st w =
           (Inr (coder_result
                   \<lparr>task_plan = tp,
                    current_step_idx = int (length (implementation_steps tp)),
                    current_file_content = None\<rparr>), w')"
    by (simp add: min_def max_def)
  moreover have "should_continue
           (coder_result
              \<lparr>task_plan = tp,
               current_step_idx = int (length (implementation_steps tp)),
               current_file_content = None\<rparr>) = END"
    by (simp add: should_continue_def coder_result_def model_dump_def empty_state_def empty_dict_def)
  ultimately show ?thesis by blast
qed

theorem fresh_run_reaches_terminal_witness:
  "\<exists>w'. coder_run [failing_turn, idle_turn, idle_turn] example_state example_world =
           (Inr (coder_result
                   \<lparr>task_plan = example_task_plan,
                    current_step_idx = int (length (implementation_steps example_task_plan)),
                    current_file_content = None\<rparr>), w') \<and>
         should_continue
           (coder_result
              \<lparr>task_plan = example_task_plan,
               current_step_idx = int (length (implementation_steps example_task_plan)),
               current_file_content = None\<rparr>) = END"
  using fresh_run_reaches_terminal
          [of example_state example_task_plan "[failing_turn, idle_turn, idle_turn]" example_world]
  by (simp add: example_state_def example_task_plan_def empty_state_def)

text \<open>
  C4.  An invocation that finds the cursor at or past the number of steps returns
  the coder state it read (cursor, task plan and scratch content), and leaves the
  workspace, the events and the model untouched; handed a dictionary the coder
  returned, it returns that very dictionary.  No other invocation returns its input:
  one that does has found the cursor at or past the number of steps.
\<close>

theorem terminal_cursor_is_the_only_noop:
  "(load_coder_state st = Loaded cs \<and>
      int (length (implementation_steps (task_plan cs))) \<le> current_step_idx cs
      \<longrightarrow> coder_agent turn st w = (Inr (coder_result cs), w)) \<and>
   (int (length (implementation_steps (task_plan cs))) \<le> current_step_idx cs
      \<longrightarrow> coder_agent turn (coder_result cs) w = (Inr (coder_result cs), w)) \<and>
   (fst (coder_agent turn st w) = Inr st
      \<longrightarrow> (\<exists>cs'. load_coder_state st = Loaded cs' \<and>
                  int (length (implementation_steps (task_plan cs'))) \<le> current_step_idx cs'))"
proof (intro conjI impI)
  assume "load_coder_state st = Loaded cs \<and>
      int (length (implementation_steps (task_plan cs))) \<le> current_step_idx cs"
  then show "coder_agent turn st w = (Inr (coder_result cs), w)"
    by (simp add: coder_agent_done)
next
  assume "int (length (implementation_steps (task_plan cs))) \<le> current_step_idx cs"
  then show "coder_agent turn (coder_result cs) w = (Inr (coder_result cs), w)"
    by (simp add: coder_agent_done load_coder_result)
next
  assume same: "fst (coder_agent turn st w) = Inr st"
  show "\<exists>cs'. load_coder_state st = Loaded cs' \<and>
          int (length (implementation_steps (task_plan cs'))) \<le> current_step_idx cs'"
  proof (cases "load_coder_state st")
    case NoTaskPlan
    with same have "st = no_task_plan_result"
      by (simp add: coder_agent_def)
    with NoTaskPlan show ?thesis
      by (simp add: load_coder_state_def no_task_plan_result_def empty_state_def)
  next
    case (Raised e)
    with same show ?thesis
      by (simp add: coder_agent_def)
  next
    case (Loaded c)
    show ?thesis
    proof (cases "int (length (implementation_steps (task_plan c))) \<le> current_step_idx c")
      case True
      with Loaded show ?thesis by simp
    next
      case False
      with same Loaded
      have "st = coder_result (c\<lparr>current_step_idx := current_step_idx c + 1\<rparr>)"
        by (auto simp: coder_agent_def split: sum.splits)
      then have "load_coder_state st = Loaded (c\<lparr>current_step_idx := current_step_idx c + 1\<rparr>)"
        by (simp add: load_coder_result)
      with Loaded have "c = c\<lparr>current_step_idx := current_step_idx c + 1\<rparr>"
        by simp
      then have "current_step_idx c = current_step_idx (c\<lparr>current_step_idx := current_step_idx c + 1\<rparr>)"
        by (rule arg_cong)
      then show ?thesis by simp
    qed
  qed
qed

theorem terminal_cursor_is_the_only_noop_witness:
  "coder_agent idle_turn (coder_result example_done) example_world =
     (Inr (coder_result example_done), example_world) \<and>
   load_coder_state (coder_result example_done) = Loaded example_done \<and>
   int (length (implementation_steps (task_plan example_done))) \<le>
     current_step_idx example_done"
  using terminal_cursor_is_the_only_noop
          [of "coder_result example_done" example_done idle_turn example_world]
  by (simp add: load_coder_result example_done_def example_task_plan_def)

section \<open>Planning failures\<close>

text \<open>
  C6, as amended.  When structured generation for the plan raises (the model call or
  the parse), the planner returns the default plan, whose \<open>files\<close> list is empty.  The
  architect still runs structured generation on that plan; when this raises too, or
  yields no steps, the task plan has no implementation steps, and then the first
  invocation of the coder returns cursor 0 with nothing touched and
  \<open>should_continue\<close> answers \<open>END\<close>.
\<close>

theorem planner_failure_recovers:
  assumes "state_user_prompt st = Some up"
    and "run_structured llm_no_tools plan_parser (planner_prompt (strip up)) = Inl e"
    and "(case run_structured llm_no_tools task_plan_parser (architect_prompt error_plan) of
            Inl e' \<Rightarrow> True
          | Inr tp \<Rightarrow> implementation_steps tp = [])"
  shows "planner_agent llm_no_tools plan_parser planner_prompt st =
           Inr (empty_state\<lparr>state_plan := Some error_plan\<rparr>) \<and>
         files error_plan = [] \<and>
         (\<exists>tp. architect_agent llm_no_tools task_plan_parser architect_prompt
                 (empty_state\<lparr>state_plan := Some error_plan\<rparr>) =
                 empty_state\<lparr>state_task_plan := Some tp\<rparr> \<and>
               implementation_steps tp = [] \<and>
               coder_agent turn (empty_state\<lparr>state_task_plan := Some tp\<rparr>) w =
                 (Inr (coder_result
                         \<lparr>task_plan = tp, current_step_idx = 0,
                          current_file_content = None\<rparr>), w) \<and>
               should_continue
                 (coder_result
                    \<lparr>task_plan = tp, current_step_idx = 0, current_file_content = None\<rparr>) =
                 END)"
proof (intro conjI)
  show "planner_agent llm_no_tools plan_parser planner_prompt st =
           Inr (empty_state\<lparr>state_plan := Some error_plan\<rparr>)"
    using assms(1,2) by (simp add: planner_agent_def)
  show "files error_plan = []"
    by (simp add: error_plan_def)
  have run: "\<And>tp. implementation_steps tp = [] \<Longrightarrow>
      coder_agent turn (empty_state\<lparr>state_task_plan := Some tp\<rparr>) w =
        (Inr (coder_result
                \<lparr>task_plan = tp, current_step_idx = 0, current_file_content = None\<rparr>), w) \<and>
      should_continue
        (coder_result
           \<lparr>task_plan = tp, current_step_idx = 0, current_file_content = None\<rparr>) = END"
    by (simp add: coder_agent_def load_coder_state_def empty_state_def should_continue_def
          coder_result_def model_dump_def empty_dict_def)
  show "\<exists>tp. architect_agent llm_no_tools task_plan_parser architect_prompt
                 (empty_state\<lparr>state_plan := Some error_plan\<rparr>) =
                 empty_state\<lparr>state_task_plan := Some tp\<rparr> \<and>
               implementation_steps tp = [] \<and>
               coder_agent turn (empty_state\<lparr>state_task_plan := Some tp\<rparr>) w =
                 (Inr (coder_result
                         \<lparr>task_plan = tp, current_step_idx = 0,
                          current_file_content = None\<rparr>), w) \<and>
               should_continue
                 (coder_result
                    \<lparr>task_plan = tp, current_step_idx = 0, current_file_content = None\<rparr>) =
                 END"
  proof (cases "run_structured llm_no_tools task_plan_parser (architect_prompt error_plan)")
    case (Inl e')
    then have "architect_agent llm_no_tools task_plan_parser architect_prompt
                 (empty_state\<lparr>state_plan := Some error_plan\<rparr>) =
               empty_state\<lparr>state_task_plan :=
                 Some \<lparr>implementation_steps = [], plan = Some error_plan\<rparr>\<rparr>"
      by (simp add: architect_agent_def empty_state_def)
    with run [of "\<lparr>implementation_steps = [], plan = Some error_plan\<rparr>"]
    show ?thesis by auto
  next
    case (Inr tp)
    with assms(3) have nil: "implementation_steps tp = []"
      by simp
    from Inr have "architect_agent llm_no_tools task_plan_parser architect_prompt
                 (empty_state\<lparr>state_plan := Some error_plan\<rparr>) =
               empty_state\<lparr>state_task_plan := Some (tp\<lparr>plan := Some error_plan\<rparr>)\<rparr>"
      by (simp add: architect_agent_def empty_state_def)
    with run [of "tp\<lparr>plan := Some error_plan\<rparr>"] nil
    show ?thesis by auto
  qed
qed

theorem planner_failure_recovers_witness:
  "planner_agent prose_llm example_plan_parser example_planner_prompt
     (empty_state\<lparr>state_user_prompt := Some '' todo app ''\<rparr>) =
     Inr (empty_state\<lparr>state_plan := Some error_plan\<rparr>) \<and>
   files error_plan = [] \<and>
   (\<exists>tp. architect_agent prose_llm example_task_plan_parser example_architect_prompt
           (empty_state\<lparr>state_plan := Some error_plan\<rparr>) =
           empty_state\<lparr>state_task_plan := Some tp\<rparr> \<and>
         implementation_steps tp = [] \<and>
         coder_agent idle_turn (empty_state\<lparr>state_task_plan := Some tp\<rparr>) example_world =
           (Inr (coder_result
                   \<lparr>task_plan = tp, current_step_idx = 0, current_file_content = None\<rparr>),
            example_world) \<and>
         should_continue
           (coder_result
              \<lparr>task_plan = tp, current_step_idx = 0, current_file_content = None\<rparr>) = END)"
  using planner_failure_recovers
          [of "empty_state\<lparr>state_user_prompt := Some '' todo app ''\<rparr>" "'' todo app ''"
              prose_llm example_plan_parser example_planner_prompt OutputParserException
              example_task_plan_parser example_architect_prompt idle_turn example_world]
  by (simp add: empty_state_def run_structured_def prose_llm_def example_plan_parser_def
        example_task_plan_parser_def)

text \<open>
  C6 as stated fails: the planner's reply does not parse, the architect's reply to the
  default plan parses into two steps, and after the first invocation of the coder
  \<open>should_continue\<close> sends the state back to the coder.
\<close>

theorem planner_failure_counterexample:
  "run_structured chatty_llm example_plan_parser (example_planner_prompt ''todo app'') =
     Inl OutputParserException \<and>
   planner_agent chatty_llm example_plan_parser example_planner_prompt
     (empty_state\<lparr>state_user_prompt := Some ''todo app''\<rparr>) =
     Inr (empty_state\<lparr>state_plan := Some error_plan\<rparr>) \<and>
   architect_agent chatty_llm example_task_plan_parser example_architect_prompt
     (empty_state\<lparr>state_plan := Some error_plan\<rparr>) =
     empty_state\<lparr>state_task_plan := Some (example_task_plan\<lparr>plan := Some error_plan\<rparr>)\<rparr> \<and>
   length (implementation_steps (example_task_plan\<lparr>plan := Some error_plan\<rparr>)) = 2 \<and>
   fst (coder_agent idle_turn
          (empty_state\<lparr>state_task_plan := Some (example_task_plan\<lparr>plan := Some error_plan\<rparr>)\<rparr>)
          example_world) =
     Inr (coder_result
            \<lparr>task_plan = example_task_plan\<lparr>plan := Some error_plan\<rparr>, current_step_idx = 1,
             current_file_content = None\<rparr>) \<and>
   should_continue
     (coder_result
        \<lparr>task_plan = example_task_plan\<lparr>plan := Some error_plan\<rparr>, current_step_idx = 1,
         current_file_content = None\<rparr>) = Coder"
  by (simp add: run_structured_def chatty_llm_def example_plan_parser_def
        example_task_plan_parser_def example_planner_prompt_def example_architect_prompt_def
        planner_agent_def architect_agent_def empty_state_def strip_def is_space_def
        error_plan_def example_task_plan_def coder_agent_def load_coder_state_def
        py_index_def should_continue_def coder_result_def model_dump_def empty_dict_def)

section \<open>The fallback\<close>

lemma llm_calls_emit_event [simp]:
  "llm_calls (emit_event ty path action sz w) = llm_calls w"
  by (simp add: emit_event_def split: option.splits)

lemma llm_calls_write_file [simp]:
  "llm_calls (snd (write_file path content w)) = llm_calls w"
  by (simp add: write_file_def split: option.splits sum.splits)

lemma snd_write_file_direct [simp]: "snd (write_file_direct path content w) = w"
  by (simp add: write_file_direct_def)

lemma llm_calls_fallback_phase:
  "llm_calls (fallback_phase turn current_task user_prompt success w) =
     llm_calls w @
     (if fallback_needed success current_task w
      then [NoToolsInvoke fallback_sys user_prompt] else [])"
  by (simp add: fallback_phase_def Let_def split: sum.splits)

lemma fst_primary_path: "fst (primary_path turn current_task w) = (\<not> react_raises turn)"
  by (simp add: primary_path_def react_phase_def Let_def)

lemma fallback_needed_iff:
  "fallback_needed success current_task w \<longleftrightarrow>
     \<not> success \<or>
     (case read_file (filepath current_task) w of
        Inl e \<Rightarrow> True
      | Inr content \<Rightarrow> strip content = [])"
  by (simp add: fallback_needed_def file_exists_after_react_def split: sum.splits)

text \<open>
  C2, as amended.  For a step that is attempted, the fallback request is made if and
  only if the agent run raised or the re-read of the target file is not confirmed,
  where confirmed means that the read returns and its content is not empty once
  leading and trailing white space is stripped.  The request is made once at most,
  and whatever it answers (an exception, nothing, or content) the cursor advances by
  one.
\<close>

theorem fallback_entered_iff_unconfirmed:
  assumes "load_coder_state st = Loaded cs"
    and "0 \<le> current_step_idx cs"
    and "current_step_idx cs < int (length (implementation_steps (task_plan cs)))"
    and "current_task = implementation_steps (task_plan cs) ! nat (current_step_idx cs)"
    and "w1 = snd (primary_path turn current_task w)"
    and "user_prompt =
           make_user_prompt current_task (read_existing current_task (debug_write w))"
  shows "\<exists>w2. coder_agent turn st w =
                 (Inr (coder_result (cs\<lparr>current_step_idx := current_step_idx cs + 1\<rparr>)), w2) \<and>
              llm_calls w2 =
                llm_calls w1 @
                (if react_raises turn \<or>
                    (case read_file (filepath current_task) w1 of
                       Inl e \<Rightarrow> True
                     | Inr content \<Rightarrow> strip content = [])
                 then [NoToolsInvoke fallback_sys user_prompt] else [])"
proof -
  have "attempt_step turn current_task w =
          fallback_phase turn current_task user_prompt (\<not> react_raises turn) w1"
    using assms(5,6) fst_primary_path [of turn current_task w]
    by (cases "primary_path turn current_task w") (simp add: attempt_step_def Let_def)
  then have "llm_calls (attempt_step turn current_task w) =
               llm_calls w1 @
                (if react_raises turn \<or>
                    (case read_file (filepath current_task) w1 of
                       Inl e \<Rightarrow> True
                     | Inr content \<Rightarrow> strip content = [])
                 then [NoToolsInvoke fallback_sys user_prompt] else [])"
    by (simp add: llm_calls_fallback_phase fallback_needed_iff)
  with coder_agent_step [OF assms(1,2,3), of turn w] assms(4)
  show ?thesis by simp
qed

theorem fallback_entered_iff_unconfirmed_witness:
  "\<exists>w2. coder_agent blank_turn example_state example_world =
          (Inr (coder_result
                  \<lparr>task_plan = example_task_plan, current_step_idx = 1,
                   current_file_content = None\<rparr>), w2) \<and>
        llm_calls w2 =
          llm_calls (snd (primary_path blank_turn example_task example_world)) @
          [NoToolsInvoke fallback_sys (make_user_prompt example_task [])]"
proof -
  have a: "read_file ''app.py'' (snd (primary_path blank_turn example_task example_world)) =
             Inr '' ''"
    by code_simp
  have b: "read_existing example_task (debug_write example_world) = []"
    by code_simp
  have c: "strip '' '' = []"
    by code_simp
  show ?thesis
    using fallback_entered_iff_unconfirmed
            [of example_state
                "\<lparr>task_plan = example_task_plan, current_step_idx = 0,
                  current_file_content = None\<rparr>"
                example_task
                "snd (primary_path blank_turn example_task example_world)"
                blank_turn example_world
                "make_user_prompt example_task []"]
          a b c
    by (simp add: example_state_def example_task_plan_def example_task_def
          load_coder_state_def empty_state_def blank_turn_def)
qed

text \<open>
  C2 as stated fails: the agent run does not raise and leaves a single blank in the
  target file, so the re-read is not empty, and the fallback request is made all the
  same.
\<close>

theorem fallback_entered_counterexample:
  "\<not> react_raises blank_turn \<and>
   read_file ''app.py'' (snd (primary_path blank_turn example_task example_world)) =
     Inr '' '' \<and>
   '' '' \<noteq> [] \<and>
   llm_calls (snd (coder_agent blank_turn example_state example_world)) =
     [ReactInvoke (make_user_prompt example_task []),
      NoToolsInvoke fallback_sys (make_user_prompt example_task [])]"
  by code_simp

section \<open>The test write\<close>

text \<open>
  C9.  The claim describes what lines 139 to 146 are written to do, and the code does
  not do it: the direct call of the tool object raises in every state, the exception
  is caught, and nothing is written.  In a bound session with an empty workspace the
  decorated function would write \<open>test.txt\<close>; after an invocation that attempts the
  first step of the example plan, with a model that does nothing, no \<open>test.txt\<close>
  exists, no event was emitted, and the workspace is empty.
\<close>

theorem test_write_never_takes_effect:
  "debug_write w = w \<and>
   fst (write_file ''test.txt'' ''Hello World Test'' example_world) =
     Inr ''WROTE:/srv/generated_project/s1/test.txt'' \<and>
   load_coder_state example_state =
     Loaded \<lparr>task_plan = example_task_plan, current_step_idx = 0,
             current_file_content = None\<rparr> \<and>
   lookup_node (disk (snd (coder_agent idle_turn example_state example_world)))
     [''srv'', ''generated_project'', ''s1'', ''test.txt''] = None \<and>
   disk (snd (coder_agent idle_turn example_state example_world)) = [] \<and>
   events (snd (coder_agent idle_turn example_state example_world)) = []"
proof -
  have a: "debug_write w = w"
    by (simp add: debug_write_def)
  have b: "fst (write_file ''test.txt'' ''Hello World Test'' example_world) =
             Inr ''WROTE:/srv/generated_project/s1/test.txt''"
    by code_simp
  have c: "load_coder_state example_state =
             Loaded \<lparr>task_plan = example_task_plan, current_step_idx = 0,
                     current_file_content = None\<rparr>"
    by (simp add: example_state_def load_coder_state_def empty_state_def)
  have d: "disk (snd (coder_agent idle_turn example_state example_world)) = []"
    by code_simp
  have e: "events (snd (coder_agent idle_turn example_state example_world)) = []"
    by code_simp
  from d have f: "lookup_node (disk (snd (coder_agent idle_turn example_state example_world)))
     [''srv'', ''generated_project'', ''s1'', ''test.txt''] = None"
    by (simp add: lookup_node_def)
  from a b c d e f show ?thesis
    by blast
qed

end
